theory Spec2Isabelle
  imports Complex_Main
begin

section \<open>Random draws (utils/difficultyConfig.js, utils/profileUtils.js)\<close>

text \<open>
  Millisecond values and counts are whole numbers and are modelled as \<open>int\<close>.
  \<open>Math.random()\<close> is a parameter \<open>r\<close>, a real number with \<open>0 \<le> r < 1\<close>;
  \<open>Math.floor\<close> is \<open>floor\<close>. A \<open>{min, max}\<close> object is a \<open>Range\<close>.
\<close>

record Range =
  min_r :: int
  max_r :: int

text \<open>
  The \<open>Difficulty\<close> object. In the built-in table \<open>totalHits\<close> is a number; the
  difficulty held by the running application carries either a number or a range, so the
  type of that field is a parameter. The application also reads \<open>difficulty.rest\<close>, an
  object whose keys may be missing (\<open>None\<close>) and which the built-in table does not have.
\<close>

record PartialRest =
  enabled_p :: "bool option"
  breakDuration_p :: "int option"

record 'h Difficulty =
  id_d :: string
  name_d :: string
  minInterval :: int
  maxInterval :: int
  totalHits :: 'h
  rest_d :: "PartialRest option"

record ComboConfig =
  id_c :: string
  comboSize :: Range
  strikeInterval :: Range
  restBetweenCombos :: Range
  totalCombos :: int

definition DIFFICULTIES :: "int Difficulty list" where
  "DIFFICULTIES =
    [\<lparr>id_d = ''very-easy'', name_d = ''Very Easy'', minInterval = 2500, maxInterval = 4000,
       totalHits = 18, rest_d = None\<rparr>,
     \<lparr>id_d = ''easy'', name_d = ''Easy'', minInterval = 1500, maxInterval = 2500,
       totalHits = 30, rest_d = None\<rparr>,
     \<lparr>id_d = ''normal'', name_d = ''Normal'', minInterval = 1000, maxInterval = 1800,
       totalHits = 45, rest_d = None\<rparr>,
     \<lparr>id_d = ''hard'', name_d = ''Hard'', minInterval = 600, maxInterval = 1200,
       totalHits = 68, rest_d = None\<rparr>,
     \<lparr>id_d = ''very-hard'', name_d = ''Very Hard'', minInterval = 300, maxInterval = 800,
       totalHits = 92, rest_d = None\<rparr>]"

definition getRandomInterval :: "real \<Rightarrow> 'h Difficulty \<Rightarrow> int" where
  "getRandomInterval r difficulty =
     \<lfloor>r * of_int (maxInterval difficulty - minInterval difficulty + 1)\<rfloor> + minInterval difficulty"

definition COMBO_SETTINGS :: "ComboConfig list" where
  "COMBO_SETTINGS =
    [\<lparr>id_c = ''very-easy'', comboSize = \<lparr>min_r = 1, max_r = 2\<rparr>,
       strikeInterval = \<lparr>min_r = 600, max_r = 800\<rparr>,
       restBetweenCombos = \<lparr>min_r = 5000, max_r = 6000\<rparr>, totalCombos = 9\<rparr>,
     \<lparr>id_c = ''easy'', comboSize = \<lparr>min_r = 1, max_r = 3\<rparr>,
       strikeInterval = \<lparr>min_r = 500, max_r = 700\<rparr>,
       restBetweenCombos = \<lparr>min_r = 4000, max_r = 5000\<rparr>, totalCombos = 12\<rparr>,
     \<lparr>id_c = ''normal'', comboSize = \<lparr>min_r = 1, max_r = 3\<rparr>,
       strikeInterval = \<lparr>min_r = 400, max_r = 600\<rparr>,
       restBetweenCombos = \<lparr>min_r = 3000, max_r = 4000\<rparr>, totalCombos = 15\<rparr>,
     \<lparr>id_c = ''hard'', comboSize = \<lparr>min_r = 1, max_r = 4\<rparr>,
       strikeInterval = \<lparr>min_r = 300, max_r = 500\<rparr>,
       restBetweenCombos = \<lparr>min_r = 2000, max_r = 3000\<rparr>, totalCombos = 17\<rparr>,
     \<lparr>id_c = ''very-hard'', comboSize = \<lparr>min_r = 1, max_r = 5\<rparr>,
       strikeInterval = \<lparr>min_r = 200, max_r = 400\<rparr>,
       restBetweenCombos = \<lparr>min_r = 1500, max_r = 2500\<rparr>, totalCombos = 20\<rparr>]"

definition getComboSettings :: "string \<Rightarrow> ComboConfig option" where
  "getComboSettings difficultyId = find (\<lambda>c. id_c c = difficultyId) COMBO_SETTINGS"

definition getRandomComboSize :: "real \<Rightarrow> ComboConfig \<Rightarrow> int" where
  "getRandomComboSize r comboConfig =
     \<lfloor>r * of_int (max_r (comboSize comboConfig) - min_r (comboSize comboConfig) + 1)\<rfloor>
       + min_r (comboSize comboConfig)"

definition getRandomStrikeInterval :: "real \<Rightarrow> ComboConfig \<Rightarrow> int" where
  "getRandomStrikeInterval r comboConfig =
     \<lfloor>r * of_int (max_r (strikeInterval comboConfig) - min_r (strikeInterval comboConfig) + 1)\<rfloor>
       + min_r (strikeInterval comboConfig)"

definition getRandomComboRest :: "real \<Rightarrow> ComboConfig \<Rightarrow> int" where
  "getRandomComboRest r comboConfig =
     \<lfloor>r * of_int (max_r (restBetweenCombos comboConfig) - min_r (restBetweenCombos comboConfig) + 1)\<rfloor>
       + min_r (restBetweenCombos comboConfig)"

definition BREAK_DURATION_MS :: int where
  "BREAK_DURATION_MS = 30000"

definition getDifficultyById :: "string \<Rightarrow> int Difficulty option" where
  "getDifficultyById ident = find (\<lambda>d. id_d d = ident) DIFFICULTIES"

definition getRandomTotalHits :: "real \<Rightarrow> Range \<Rightarrow> int" where
  "getRandomTotalHits r hits = \<lfloor>r * of_int (max_r hits - min_r hits + 1)\<rfloor> + min_r hits"


section \<open>Statistics (utils/statsCalculator.js, components/ResultsScreen.jsx)\<close>



definition calculateAveragePace :: "int \<Rightarrow> int \<Rightarrow> int" where
  "calculateAveragePace hits duration =
     (if hits < 2 \<or> duration \<le> 0 then 0
      else round (real_of_int duration / real_of_int (hits - 1)))"



section \<open>Session history (context/TrainingContext.jsx)\<close>

text \<open>
  The entry handed to \<open>addToHistory\<close> by the orchestrator. \<open>combosCompleted\<close> and
  \<open>totalCombos\<close> are present in combo mode only. The stored entry adds an id, built from
  \<open>Date.now()\<close> and the base-36 digits of a draw of \<open>Math.random()\<close>, kept here as the
  pair of the instant and the draw, and the timestamp of the same instant.
\<close>

record HistoryEntry =
  mode_h :: string
  trainingType_h :: string
  difficultyId :: string
  hitsCompleted_h :: int
  totalHits_h :: int
  combosCompleted_h :: "int option"
  totalCombos_h :: "int option"
  durationMs_h :: int
  sessionNumber :: int
  totalSessions :: int

datatype SessionId = SessionId int real

record SessionHistoryEntry =
  entry :: HistoryEntry
  id_h :: SessionId
  timestamp :: int

definition MAX_HISTORY_ENTRIES :: nat where
  "MAX_HISTORY_ENTRIES = 10"

definition addToHistory ::
  "int \<Rightarrow> real \<Rightarrow> HistoryEntry \<Rightarrow> SessionHistoryEntry list \<Rightarrow> SessionHistoryEntry list" where
  "addToHistory now rnd e prev =
     take MAX_HISTORY_ENTRIES (\<lparr>entry = e, id_h = SessionId now rnd, timestamp = now\<rparr> # prev)"

text \<open>
  Repeated calls, one per triple of the instant, the random draw and the entry, the
  first call first.
\<close>

fun addAllToHistory ::
  "(int \<times> real \<times> HistoryEntry) list \<Rightarrow> SessionHistoryEntry list \<Rightarrow> SessionHistoryEntry list" where
  "addAllToHistory [] prev = prev"
| "addAllToHistory ((now, rnd, e) # calls) prev = addAllToHistory calls (addToHistory now rnd e prev)"




section \<open>Profiles (utils/profileUtils.js)\<close>

text \<open>
  \<open>createDifficultySettings\<close> builds every field of a difficulty's settings, so the
  default profile is a value of the complete types below.
\<close>

record ComboValues =
  comboSize_v :: Range
  strikeInterval_v :: Range
  restBetweenCombos_v :: Range
  totalCombos_v :: int

record RestValues =
  enabled_v :: bool
  breakDuration_v :: int

record DifficultySettings =
  id_s :: string
  name_s :: string
  minInterval_s :: int
  maxInterval_s :: int
  totalHits_s :: Range
  combo_s :: ComboValues
  rest_s :: RestValues

record DefaultProfile =
  id_dp :: string
  name_dp :: string
  isDefault_dp :: bool
  isReadOnly_dp :: bool
  createdAt_dp :: int
  updatedAt_dp :: int
  difficulties_dp :: "DifficultySettings list"

definition DEFAULT_PROFILE_ID :: string where
  "DEFAULT_PROFILE_ID = ''default''"

definition createDifficultySettings :: "int Difficulty \<Rightarrow> ComboConfig \<Rightarrow> DifficultySettings" where
  "createDifficultySettings difficulty comboSettings =
     \<lparr>id_s = id_d difficulty,
      name_s = name_d difficulty,
      minInterval_s = minInterval difficulty,
      maxInterval_s = maxInterval difficulty,
      totalHits_s = \<lparr>min_r = totalHits difficulty, max_r = totalHits difficulty\<rparr>,
      combo_s = \<lparr>comboSize_v = comboSize comboSettings,
                 strikeInterval_v = strikeInterval comboSettings,
                 restBetweenCombos_v = restBetweenCombos comboSettings,
                 totalCombos_v = totalCombos comboSettings\<rparr>,
      rest_s = \<lparr>enabled_v = True, breakDuration_v = BREAK_DURATION_MS\<rparr>\<rparr>"

text \<open>
  \<open>DIFFICULTIES.map((diff, index) => ... COMBO_SETTINGS[index] ...)\<close>: both tables have
  five rows, so the rows are paired by position.
\<close>

definition createDefaultProfile :: DefaultProfile where
  "createDefaultProfile =
     \<lparr>id_dp = DEFAULT_PROFILE_ID,
      name_dp = ''Default'',
      isDefault_dp = True,
      isReadOnly_dp = True,
      createdAt_dp = 0,
      updatedAt_dp = 0,
      difficulties_dp = map (\<lambda>(diff, comboSettings). createDifficultySettings diff comboSettings)
                          (zip DIFFICULTIES COMBO_SETTINGS)\<rparr>"

text \<open>
  A profile read from storage or held by the editor is a JavaScript object of which any
  key may be missing: every leaf is an \<open>option\<close>, \<open>None\<close> for a key that is absent
  (\<open>undefined\<close>).
\<close>

record PartialRange =
  min_p :: "int option"
  max_p :: "int option"

record PartialCombo =
  comboSize_p :: "PartialRange option"
  strikeInterval_p :: "PartialRange option"
  restBetweenCombos_p :: "PartialRange option"
  totalCombos_p :: "int option"

record PartialDifficulty =
  id_p :: "string option"
  name_p :: "string option"
  minInterval_p :: "int option"
  maxInterval_p :: "int option"
  totalHits_p :: "PartialRange option"
  combo_p :: "PartialCombo option"
  rest_p :: "PartialRest option"

record PartialProfile =
  id_pp :: "string option"
  name_pp :: "string option"
  isDefault_pp :: "bool option"
  isReadOnly_pp :: "bool option"
  createdAt_pp :: "int option"
  updatedAt_pp :: "int option"
  difficulties_pp :: "PartialDifficulty list option"

text \<open>
  JavaScript operators on possibly missing values. \<open>a ?? b\<close> takes \<open>b\<close> when \<open>a\<close> is
  missing; \<open>a || b\<close> on strings takes \<open>b\<close> also when \<open>a\<close> is the empty string. A
  comparison with \<open>undefined\<close> is false.
\<close>

definition nullish :: "'a option \<Rightarrow> 'a \<Rightarrow> 'a" where
  "nullish a b = (case a of None \<Rightarrow> b | Some v \<Rightarrow> v)"

definition or_string :: "string option \<Rightarrow> string \<Rightarrow> string" where
  "or_string a b = (case a of None \<Rightarrow> b | Some v \<Rightarrow> if v = [] then b else v)"

definition lt_js :: "int option \<Rightarrow> int option \<Rightarrow> bool" where
  "lt_js a b = (case (a, b) of (Some x, Some y) \<Rightarrow> x < y | _ \<Rightarrow> False)"

definition le_js :: "int option \<Rightarrow> int option \<Rightarrow> bool" where
  "le_js a b = (case (a, b) of (Some x, Some y) \<Rightarrow> x \<le> y | _ \<Rightarrow> False)"

definition gt_js :: "int option \<Rightarrow> int option \<Rightarrow> bool" where
  "gt_js a b = (case (a, b) of (Some x, Some y) \<Rightarrow> x > y | _ \<Rightarrow> False)"

text \<open>\<open>String.prototype.trim\<close>, on the ASCII white space and line terminators.\<close>

definition whitespace :: "char \<Rightarrow> bool" where
  "whitespace c = (c \<in> set [CHR 0x09, CHR 0x0A, CHR 0x0B, CHR 0x0C, CHR 0x0D, CHR '' ''])"

definition trim :: "string \<Rightarrow> string" where
  "trim s = rev (dropWhile whitespace (rev (dropWhile whitespace s)))"

subsection \<open>\<open>mergeWithDefaults\<close>\<close>

text \<open>\<open>{ ...defaultDiff }\<close>: the default settings as an object, every key present.\<close>

definition rangeObject :: "Range \<Rightarrow> PartialRange" where
  "rangeObject r = \<lparr>min_p = Some (min_r r), max_p = Some (max_r r)\<rparr>"

definition comboObject :: "ComboValues \<Rightarrow> PartialCombo" where
  "comboObject c =
     \<lparr>comboSize_p = Some (rangeObject (comboSize_v c)),
      strikeInterval_p = Some (rangeObject (strikeInterval_v c)),
      restBetweenCombos_p = Some (rangeObject (restBetweenCombos_v c)),
      totalCombos_p = Some (totalCombos_v c)\<rparr>"

definition restObject :: "RestValues \<Rightarrow> PartialRest" where
  "restObject r = \<lparr>enabled_p = Some (enabled_v r), breakDuration_p = Some (breakDuration_v r)\<rparr>"

definition settingsObject :: "DifficultySettings \<Rightarrow> PartialDifficulty" where
  "settingsObject d =
     \<lparr>id_p = Some (id_s d),
      name_p = Some (name_s d),
      minInterval_p = Some (minInterval_s d),
      maxInterval_p = Some (maxInterval_s d),
      totalHits_p = Some (rangeObject (totalHits_s d)),
      combo_p = Some (comboObject (combo_s d)),
      rest_p = Some (restObject (rest_s d))\<rparr>"

text \<open>
  \<open>custom ? { min: custom.min ?? default.min, max: custom.max ?? default.max }
  : { ...default }\<close>, the pattern of every range of the merge.
\<close>

definition mergeRange :: "PartialRange option \<Rightarrow> Range \<Rightarrow> PartialRange" where
  "mergeRange custom dflt =
     (case custom of
        Some c \<Rightarrow> \<lparr>min_p = Some (nullish (min_p c) (min_r dflt)),
                   max_p = Some (nullish (max_p c) (max_r dflt))\<rparr>
      | None \<Rightarrow> rangeObject dflt)"

text \<open>The body of the \<open>map\<close> callback: one default difficulty and the entry found for it.\<close>

definition mergeDifficulty :: "DifficultySettings \<Rightarrow> PartialDifficulty option \<Rightarrow> PartialDifficulty" where
  "mergeDifficulty defaultDiff found =
     (case found of
        None \<Rightarrow> settingsObject defaultDiff
      | Some customDiff \<Rightarrow>
          \<lparr>id_p = Some (or_string (id_p customDiff) (id_s defaultDiff)),
           name_p = Some (or_string (name_p customDiff) (name_s defaultDiff)),
           minInterval_p = Some (nullish (minInterval_p customDiff) (minInterval_s defaultDiff)),
           maxInterval_p = Some (nullish (maxInterval_p customDiff) (maxInterval_s defaultDiff)),
           totalHits_p = Some (mergeRange (totalHits_p customDiff) (totalHits_s defaultDiff)),
           combo_p = Some
             (case combo_p customDiff of
                Some c \<Rightarrow>
                  \<lparr>comboSize_p = Some (mergeRange (comboSize_p c) (comboSize_v (combo_s defaultDiff))),
                   strikeInterval_p =
                     Some (mergeRange (strikeInterval_p c) (strikeInterval_v (combo_s defaultDiff))),
                   restBetweenCombos_p =
                     Some (mergeRange (restBetweenCombos_p c) (restBetweenCombos_v (combo_s defaultDiff))),
                   totalCombos_p = Some (nullish (totalCombos_p c) (totalCombos_v (combo_s defaultDiff)))\<rparr>
              | None \<Rightarrow> comboObject (combo_s defaultDiff)),
           rest_p = Some
             (case rest_p customDiff of
                Some r \<Rightarrow>
                  \<lparr>enabled_p = Some (nullish (enabled_p r) (enabled_v (rest_s defaultDiff))),
                   breakDuration_p =
                     Some (nullish (breakDuration_p r) (breakDuration_v (rest_s defaultDiff)))\<rparr>
              | None \<Rightarrow> restObject (rest_s defaultDiff))\<rparr>)"

text \<open>
  \<open>partial.difficulties?.find(d => d.id === defaultDiff.id)\<close>: the first entry with the
  default's id, none when the list is missing.
\<close>

definition findCustom :: "PartialProfile \<Rightarrow> DifficultySettings \<Rightarrow> PartialDifficulty option" where
  "findCustom partial defaultDiff =
     (case difficulties_pp partial of
        None \<Rightarrow> None
      | Some ds \<Rightarrow> find (\<lambda>d. id_p d = Some (id_s defaultDiff)) ds)"

text \<open>\<open>uuid\<close> is the value of \<open>generateUUID()\<close>, \<open>now\<close> that of \<open>Date.now()\<close>.\<close>

definition mergeWithDefaults :: "string \<Rightarrow> int \<Rightarrow> PartialProfile \<Rightarrow> PartialProfile" where
  "mergeWithDefaults uuid now partial =
     (let defaultProfile = createDefaultProfile;
          mergedDifficulties =
            map (\<lambda>defaultDiff. mergeDifficulty defaultDiff (findCustom partial defaultDiff))
              (difficulties_dp defaultProfile)
      in \<lparr>id_pp = Some (or_string (id_pp partial) uuid),
          name_pp = Some (or_string (name_pp partial) ''Unnamed Profile''),
          isDefault_pp = Some (nullish (isDefault_pp partial) False),
          isReadOnly_pp = Some (nullish (isReadOnly_pp partial) False),
          createdAt_pp = Some (nullish (createdAt_pp partial) now),
          updatedAt_pp = Some (nullish (updatedAt_pp partial) now),
          difficulties_pp = Some mergedDifficulties\<rparr>)"

subsection \<open>\<open>validateProfile\<close>\<close>

record Recommended =
  minInterval_rec :: Range
  maxInterval_rec :: Range
  totalHits_rec :: Range
  breakDuration_rec :: Range
  explanation :: string

definition RECOMMENDED_VALUES :: "(string \<times> Recommended) list" where
  "RECOMMENDED_VALUES =
    [(''very-easy'',
      \<lparr>minInterval_rec = \<lparr>min_r = 2000, max_r = 3000\<rparr>,
       maxInterval_rec = \<lparr>min_r = 3500, max_r = 5000\<rparr>,
       totalHits_rec = \<lparr>min_r = 15, max_r = 20\<rparr>,
       breakDuration_rec = \<lparr>min_r = 30000, max_r = 45000\<rparr>,
       explanation = ''Beginner-friendly, allows full recovery between strikes''\<rparr>),
     (''easy'',
      \<lparr>minInterval_rec = \<lparr>min_r = 1200, max_r = 1800\<rparr>,
       maxInterval_rec = \<lparr>min_r = 2200, max_r = 3000\<rparr>,
       totalHits_rec = \<lparr>min_r = 25, max_r = 35\<rparr>,
       breakDuration_rec = \<lparr>min_r = 25000, max_r = 35000\<rparr>,
       explanation = ''Gentle warmup progression for building stamina''\<rparr>),
     (''normal'',
      \<lparr>minInterval_rec = \<lparr>min_r = 800, max_r = 1200\<rparr>,
       maxInterval_rec = \<lparr>min_r = 1500, max_r = 2000\<rparr>,
       totalHits_rec = \<lparr>min_r = 40, max_r = 50\<rparr>,
       breakDuration_rec = \<lparr>min_r = 20000, max_r = 30000\<rparr>,
       explanation = ''Balanced challenge for regular training sessions''\<rparr>),
     (''hard'',
      \<lparr>minInterval_rec = \<lparr>min_r = 500, max_r = 800\<rparr>,
       maxInterval_rec = \<lparr>min_r = 1000, max_r = 1400\<rparr>,
       totalHits_rec = \<lparr>min_r = 60, max_r = 75\<rparr>,
       breakDuration_rec = \<lparr>min_r = 15000, max_r = 25000\<rparr>,
       explanation = ''Fast reactions required, high intensity workout''\<rparr>),
     (''very-hard'',
      \<lparr>minInterval_rec = \<lparr>min_r = 200, max_r = 400\<rparr>,
       maxInterval_rec = \<lparr>min_r = 600, max_r = 1000\<rparr>,
       totalHits_rec = \<lparr>min_r = 85, max_r = 100\<rparr>,
       breakDuration_rec = \<lparr>min_r = 10000, max_r = 20000\<rparr>,
       explanation = ''Elite level training with minimal rest between strikes''\<rparr>)]"

text \<open>
  The messages. Each carries the difficulty's label \<open>diff.name || `Difficulty ${index + 1}`\<close>;
  a warning also carries the offending value and the recommended bound it is compared with.
\<close>

datatype DiffName = Named string | Numbered nat

datatype ValidationError =
    NameRequired
  | MinIntervalNotPositive DiffName
  | MaxIntervalNotPositive DiffName
  | MinIntervalGreaterThanMax DiffName
  | TotalHitsNotPositive DiffName
  | TotalHitsMinGreaterThanMax DiffName
  | BreakDurationNegative DiffName

datatype ValidationWarning =
    MinIntervalBelowRecommended DiffName "int option" int
  | MinIntervalAboveRecommended DiffName "int option" int
  | MaxIntervalBelowRecommended DiffName "int option" int
  | MaxIntervalAboveRecommended DiffName "int option" int

record Validation =
  errors :: "ValidationError list"
  warnings :: "ValidationWarning list"

definition diffName :: "PartialDifficulty \<Rightarrow> nat \<Rightarrow> DiffName" where
  "diffName diff index =
     (case name_p diff of
        None \<Rightarrow> Numbered (index + 1)
      | Some n \<Rightarrow> if n = [] then Numbered (index + 1) else Named n)"

definition nameErrors :: "PartialProfile \<Rightarrow> ValidationError list" where
  "nameErrors profile =
     (case name_pp profile of
        None \<Rightarrow> [NameRequired]
      | Some n \<Rightarrow> if n = [] \<or> trim n = [] then [NameRequired] else [])"

text \<open>The errors pushed for one difficulty, in the order of the source.\<close>

definition difficultyErrors :: "PartialDifficulty \<Rightarrow> nat \<Rightarrow> ValidationError list" where
  "difficultyErrors diff index =
     (let label = diffName diff index in
      (if le_js (minInterval_p diff) (Some 0) then [MinIntervalNotPositive label] else []) @
      (if le_js (maxInterval_p diff) (Some 0) then [MaxIntervalNotPositive label] else []) @
      (if gt_js (minInterval_p diff) (maxInterval_p diff)
       then [MinIntervalGreaterThanMax label] else []) @
      (case totalHits_p diff of
         None \<Rightarrow> []
       | Some th \<Rightarrow>
           (if le_js (min_p th) (Some 0) \<or> le_js (max_p th) (Some 0)
            then [TotalHitsNotPositive label] else []) @
           (if gt_js (min_p th) (max_p th) then [TotalHitsMinGreaterThanMax label] else [])) @
      (case rest_p diff of
         None \<Rightarrow> []
       | Some r \<Rightarrow>
           (if lt_js (breakDuration_p r) (Some 0) then [BreakDurationNegative label] else [])))"

text \<open>
  The warnings pushed for one difficulty. \<open>RECOMMENDED_VALUES[diff.id]\<close> is missing for an
  id that is not one of the five.
\<close>

definition difficultyWarnings :: "PartialDifficulty \<Rightarrow> nat \<Rightarrow> ValidationWarning list" where
  "difficultyWarnings diff index =
     (let label = diffName diff index in
      case (case id_p diff of None \<Rightarrow> None | Some i \<Rightarrow> map_of RECOMMENDED_VALUES i) of
        None \<Rightarrow> []
      | Some recommended \<Rightarrow>
          (if lt_js (minInterval_p diff) (Some (min_r (minInterval_rec recommended)))
           then [MinIntervalBelowRecommended label (minInterval_p diff)
                   (min_r (minInterval_rec recommended))] else []) @
          (if gt_js (minInterval_p diff) (Some (max_r (minInterval_rec recommended)))
           then [MinIntervalAboveRecommended label (minInterval_p diff)
                   (max_r (minInterval_rec recommended))] else []) @
          (if lt_js (maxInterval_p diff) (Some (min_r (maxInterval_rec recommended)))
           then [MaxIntervalBelowRecommended label (maxInterval_p diff)
                   (min_r (maxInterval_rec recommended))] else []) @
          (if gt_js (maxInterval_p diff) (Some (max_r (maxInterval_rec recommended)))
           then [MaxIntervalAboveRecommended label (maxInterval_p diff)
                   (max_r (maxInterval_rec recommended))] else []))"

text \<open>\<open>profile.difficulties?.forEach((diff, index) => ...)\<close>, from index \<open>i\<close> on.\<close>

fun forEachDifficulty ::
  "(PartialDifficulty \<Rightarrow> nat \<Rightarrow> 'm list) \<Rightarrow> PartialDifficulty list \<Rightarrow> nat \<Rightarrow> 'm list" where
  "forEachDifficulty f [] i = []"
| "forEachDifficulty f (diff # rest) i = f diff i @ forEachDifficulty f rest (Suc i)"

definition validateProfile :: "PartialProfile \<Rightarrow> Validation" where
  "validateProfile profile =
     (let ds = (case difficulties_pp profile of None \<Rightarrow> [] | Some l \<Rightarrow> l) in
      \<lparr>errors = nameErrors profile @ forEachDifficulty difficultyErrors ds 0,
       warnings = forEachDifficulty difficultyWarnings ds 0\<rparr>)"




section \<open>Training state (context/TrainingContext.jsx)\<close>

definition TRAINING_MODES :: "string list" where
  "TRAINING_MODES = [''punches'', ''kicks'', ''both'']"

definition TRAINING_TYPES :: "string list" where
  "TRAINING_TYPES = [''single'', ''combo'']"

abbreviation IDLE :: string where "IDLE \<equiv> ''IDLE''"
abbreviation COUNTDOWN :: string where "COUNTDOWN \<equiv> ''COUNTDOWN''"
abbreviation TRAINING :: string where "TRAINING \<equiv> ''TRAINING''"
abbreviation MID_REST :: string where "MID_REST \<equiv> ''MID_REST''"
abbreviation SESSION_END :: string where "SESSION_END \<equiv> ''SESSION_END''"
abbreviation BREAK :: string where "BREAK \<equiv> ''BREAK''"
abbreviation COMPLETE :: string where "COMPLETE \<equiv> ''COMPLETE''"

text \<open>\<open>Object.values(TRAINING_PHASES)\<close>.\<close>

definition TRAINING_PHASES :: "string list" where
  "TRAINING_PHASES = [IDLE, COUNTDOWN, TRAINING, MID_REST, SESSION_END, BREAK, COMPLETE]"

text \<open>
  The difficulty of the state is a row of the built-in table, with a number of hits, or
  the settings of the active profile, with a range of hits.
\<close>

datatype TotalHits = HitsNumber int | HitsRange Range

definition builtin :: "int Difficulty \<Rightarrow> TotalHits Difficulty" where
  "builtin d =
     \<lparr>id_d = id_d d, name_d = name_d d, minInterval = minInterval d, maxInterval = maxInterval d,
      totalHits = HitsNumber (totalHits d), rest_d = rest_d d\<rparr>"

definition DEFAULT_DIFFICULTY :: "int Difficulty" where
  "DEFAULT_DIFFICULTY = DIFFICULTIES ! 2"

record TrainingState =
  mode :: string
  trainingType :: string
  difficulty :: "TotalHits Difficulty"
  numberOfSessions :: int
  phase :: string
  currentSession :: int
  hitsCompleted :: int
  combosCompleted :: int

text \<open>
  The actions of the reducer. The payload of \<open>SET_DIFFICULTY\<close> is a settings object or a
  difficulty id; \<open>UNKNOWN\<close> stands for any other action type.
\<close>

datatype DifficultyPayload = DifficultyObject "TotalHits Difficulty" | DifficultyId string

datatype Action =
    SET_MODE string
  | SET_TRAINING_TYPE string
  | SET_DIFFICULTY DifficultyPayload
  | SET_NUMBER_OF_SESSIONS int
  | SET_PHASE string
  | INCREMENT_SESSION
  | SET_HITS_COMPLETED int
  | INCREMENT_HITS
  | INCREMENT_COMBOS
  | RESET_SESSION
  | RESET_ALL
  | UNKNOWN string

definition initialState :: TrainingState where
  "initialState =
     \<lparr>mode = TRAINING_MODES ! 2,
      trainingType = TRAINING_TYPES ! 0,
      difficulty = builtin DEFAULT_DIFFICULTY,
      numberOfSessions = 2,
      phase = IDLE,
      currentSession = 1,
      hitsCompleted = 0,
      combosCompleted = 0\<rparr>"

fun trainingReducer :: "TrainingState \<Rightarrow> Action \<Rightarrow> TrainingState" where
  "trainingReducer state (SET_MODE payload) =
     (if payload \<notin> set TRAINING_MODES then state else state\<lparr>mode := payload\<rparr>)"
| "trainingReducer state (SET_TRAINING_TYPE payload) =
     (if payload \<notin> set TRAINING_TYPES then state else state\<lparr>trainingType := payload\<rparr>)"
| "trainingReducer state (SET_DIFFICULTY (DifficultyObject payload)) =
     (if id_d payload \<noteq> [] then state\<lparr>difficulty := payload\<rparr> else state)"
| "trainingReducer state (SET_DIFFICULTY (DifficultyId payload)) =
     (case find (\<lambda>d. id_d d = payload) DIFFICULTIES of
        None \<Rightarrow> state
      | Some d \<Rightarrow> state\<lparr>difficulty := builtin d\<rparr>)"
| "trainingReducer state (SET_NUMBER_OF_SESSIONS payload) =
     state\<lparr>numberOfSessions := min 4 (max 1 payload)\<rparr>"
| "trainingReducer state (SET_PHASE payload) =
     (if payload \<notin> set TRAINING_PHASES then state else state\<lparr>phase := payload\<rparr>)"
| "trainingReducer state INCREMENT_SESSION = state\<lparr>currentSession := currentSession state + 1\<rparr>"
| "trainingReducer state (SET_HITS_COMPLETED payload) = state\<lparr>hitsCompleted := payload\<rparr>"
| "trainingReducer state INCREMENT_HITS = state\<lparr>hitsCompleted := hitsCompleted state + 1\<rparr>"
| "trainingReducer state INCREMENT_COMBOS = state\<lparr>combosCompleted := combosCompleted state + 1\<rparr>"
| "trainingReducer state RESET_SESSION = state\<lparr>hitsCompleted := 0, combosCompleted := 0\<rparr>"
| "trainingReducer state RESET_ALL =
     state\<lparr>phase := IDLE, currentSession := 1, hitsCompleted := 0, combosCompleted := 0\<rparr>"
| "trainingReducer state (UNKNOWN t) = state"


section \<open>The orchestrator (App.jsx)\<close>

text \<open>
  \<open>TrainingApp\<close> is a set of effects over the training state, its own local state and
  its refs, and of timer callbacks. The model keeps all of them in one record, with the
  pending timers of the page, the clock, the number of draws of \<open>Math.random()\<close> made so
  far, the wake lock and the log of the sounds requested. The environment gives the draws
  of \<open>Math.random()\<close> in order and the combo settings of the active profile.
\<close>

datatype Callback =
    CountdownStart
  | CountdownTick int
  | CountdownDone
  | ActionTimer
  | ActionDisplay
  | ComboStart
  | Strike
  | StrikeDisplay
  | ComboComplete
  | BreakTick int

record Timer =
  handle :: int
  due :: int
  callback :: Callback

datatype Sound = Punch | Kick | SessionStart | SessionEnd | Warning | Countdown

record Env =
  rng :: "nat \<Rightarrow> real"
  getEffectiveComboSettings :: "string \<Rightarrow> ComboConfig option"

record App =
  state :: TrainingState
  sessionHistory :: "SessionHistoryEntry list"
  countdownValue :: int
  currentAction :: "string option"
  breakTimeRemaining :: int
  trainingStartTime :: "int option"
  trainingEndTime :: "int option"
  sessionStartTime :: "int option"
  sessionTotalHits :: "int option"
  countdownTimerRef :: "int option"
  actionTimerRef :: "int option"
  breakTimerRef :: "int option"
  warningPlayedRef :: bool
  comboTimersRef :: "int list"
  countdownCleanup :: bool
  singleCleanup :: bool
  comboCleanup :: bool
  breakCleanup :: bool
  timers :: "Timer list"
  nextHandle :: int
  clock :: int
  draws :: nat
  wakeLock :: bool
  sounds :: "(int \<times> Sound) list"

subsection \<open>Timers, draws, sounds, dispatch\<close>

text \<open>
  \<open>setTimeout\<close> returns a fresh positive handle; \<open>clearTimeout\<close> of a handle that is not
  pending does nothing. \<open>if (ref.current) clearTimeout(ref.current)\<close> is \<open>clearRef\<close>.
\<close>

definition setTimeout :: "Callback \<Rightarrow> int \<Rightarrow> App \<Rightarrow> int \<times> App" where
  "setTimeout cb delay s =
     (nextHandle s,
      s\<lparr>timers := timers s @ [\<lparr>handle = nextHandle s, due = clock s + max 0 delay, callback = cb\<rparr>],
        nextHandle := nextHandle s + 1\<rparr>)"

definition clearTimeout :: "int \<Rightarrow> App \<Rightarrow> App" where
  "clearTimeout h s = s\<lparr>timers := filter (\<lambda>t. handle t \<noteq> h) (timers s)\<rparr>"

definition clearRef :: "int option \<Rightarrow> App \<Rightarrow> App" where
  "clearRef r s = (case r of None \<Rightarrow> s | Some h \<Rightarrow> if h = 0 then s else clearTimeout h s)"

definition random :: "Env \<Rightarrow> App \<Rightarrow> real \<times> App" where
  "random env s = (rng env (draws s), s\<lparr>draws := Suc (draws s)\<rparr>)"

definition play :: "Sound \<Rightarrow> App \<Rightarrow> App" where
  "play sound s = s\<lparr>sounds := sounds s @ [(clock s, sound)]\<rparr>"

definition dispatch :: "Action \<Rightarrow> App \<Rightarrow> App" where
  "dispatch a s = s\<lparr>state := trainingReducer (state s) a\<rparr>"

definition setPhase :: "string \<Rightarrow> App \<Rightarrow> App" where
  "setPhase p = dispatch (SET_PHASE p)"

definition incrementSession :: "App \<Rightarrow> App" where
  "incrementSession = dispatch INCREMENT_SESSION"

definition incrementHits :: "App \<Rightarrow> App" where
  "incrementHits = dispatch INCREMENT_HITS"

definition incrementCombos :: "App \<Rightarrow> App" where
  "incrementCombos = dispatch INCREMENT_COMBOS"

definition resetSession :: "App \<Rightarrow> App" where
  "resetSession = dispatch RESET_SESSION"

definition resetAll :: "App \<Rightarrow> App" where
  "resetAll = dispatch RESET_ALL"

text \<open>The context's \<open>addToHistory\<close> action: the updater above, at the current instant.\<close>

definition addToHistoryAction :: "Env \<Rightarrow> HistoryEntry \<Rightarrow> App \<Rightarrow> App" where
  "addToHistoryAction env e s =
     (let (r, s1) = random env s
      in s1\<lparr>sessionHistory := addToHistory (clock s1) r e (sessionHistory s1)\<rparr>)"

subsection \<open>Stimuli\<close>

text \<open>
  In the functions below \<open>snap\<close> is the state as rendered, which the closures of an effect
  read; \<open>s\<close> is the application as the effect finds it and changes it.
\<close>

definition getRandomAction :: "Env \<Rightarrow> App \<Rightarrow> App \<Rightarrow> string \<times> App" where
  "getRandomAction env snap s =
     (if mode (state snap) = ''punches'' then (''punch'', s)
      else if mode (state snap) = ''kicks'' then (''kick'', s)
      else (let (r, s1) = random env s in (if r < 0.5 then ''punch'' else ''kick'', s1)))"

definition present :: "Env \<Rightarrow> App \<Rightarrow> App \<Rightarrow> App" where
  "present env snap s =
     (let (action, s1) = getRandomAction env snap s;
          s2 = s1\<lparr>currentAction := Some action\<rparr>
      in if action = ''punch'' then play Punch s2 else play Kick s2)"

definition scheduleNextAction :: "Env \<Rightarrow> App \<Rightarrow> App \<Rightarrow> App" where
  "scheduleNextAction env snap s =
     (let (r, s1) = random env s;
          interval = getRandomInterval r (difficulty (state snap));
          (h, s2) = setTimeout ActionTimer interval s1
      in s2\<lparr>actionTimerRef := Some h\<rparr>)"

text \<open>
  The loop of \<open>scheduleCombo\<close> over the strikes, \<open>k\<close> of them left: each gets its timer
  at the cumulative delay, and every strike but the last adds a fresh strike interval.
\<close>

fun scheduleStrikes :: "Env \<Rightarrow> ComboConfig \<Rightarrow> nat \<Rightarrow> int \<Rightarrow> App \<Rightarrow> int \<times> App" where
  "scheduleStrikes env comboConfig 0 cumulativeDelay s = (cumulativeDelay, s)"
| "scheduleStrikes env comboConfig (Suc k) cumulativeDelay s =
     (let (strikeTimer, s1) = setTimeout Strike cumulativeDelay s;
          s2 = s1\<lparr>comboTimersRef := comboTimersRef s1 @ [strikeTimer]\<rparr>
      in if k > 0
         then (let (r, s3) = random env s2
               in scheduleStrikes env comboConfig k
                    (cumulativeDelay + getRandomStrikeInterval r comboConfig) s3)
         else scheduleStrikes env comboConfig k cumulativeDelay s2)"

definition scheduleCombo :: "Env \<Rightarrow> App \<Rightarrow> App \<Rightarrow> App" where
  "scheduleCombo env snap s =
     (case getEffectiveComboSettings env (id_d (difficulty (state snap))) of
        None \<Rightarrow> s
      | Some comboConfig \<Rightarrow>
          (let (r1, s1) = random env s;
               comboSize' = getRandomComboSize r1 comboConfig;
               (r2, s2) = random env s1;
               restAfterCombo = getRandomComboRest r2 comboConfig;
               s3 = (fold clearTimeout (comboTimersRef s2) s2)\<lparr>comboTimersRef := []\<rparr>;
               (cumulativeDelay, s4) = scheduleStrikes env comboConfig (nat comboSize') 0 s3;
               comboEndDelay = cumulativeDelay + 300;
               (comboCompleteTimer, s5) = setTimeout ComboComplete comboEndDelay s4
           in s5\<lparr>comboTimersRef := comboTimersRef s5 @ [comboCompleteTimer]\<rparr>))"

subsection \<open>Countdown and break\<close>

definition runCountdown :: "int \<Rightarrow> App \<Rightarrow> App" where
  "runCountdown v s =
     (let s1 = (if v > 0 then play Countdown s else s);
          (h, s2) = (if v > 0 then setTimeout (CountdownTick v) 1000 s1
                     else setTimeout CountdownDone 800 s1)
      in s2\<lparr>countdownTimerRef := Some h\<rparr>)"

definition truthy :: "int option \<Rightarrow> bool" where
  "truthy v = (case v of None \<Rightarrow> False | Some n \<Rightarrow> n \<noteq> 0)"

text \<open>The callback that ends the countdown and starts the session.\<close>

definition countdownDone :: "Env \<Rightarrow> App \<Rightarrow> App \<Rightarrow> App" where
  "countdownDone env snap s =
     (let s1 = (if \<not> truthy (trainingStartTime snap) then s\<lparr>trainingStartTime := Some (clock s)\<rparr> else s);
          s2 = s1\<lparr>sessionStartTime := Some (clock s1)\<rparr>;
          (hits, s3) = (case totalHits (difficulty (state snap)) of
                          HitsRange range' \<Rightarrow>
                            (let (r, s') = random env s2 in (getRandomTotalHits r range', s'))
                        | HitsNumber n \<Rightarrow> (n, s2));
          s4 = s3\<lparr>sessionTotalHits := Some hits\<rparr>
      in setPhase TRAINING (play SessionStart s4))"

definition runBreak :: "int \<Rightarrow> App \<Rightarrow> App" where
  "runBreak remaining s =
     (if remaining > 0
      then (let s1 = (if remaining = 5 \<and> \<not> warningPlayedRef s
                      then (play Warning s)\<lparr>warningPlayedRef := True\<rparr> else s);
                (h, s2) = setTimeout (BreakTick remaining) 1000 s1
            in s2\<lparr>breakTimerRef := Some h\<rparr>)
      else setPhase COUNTDOWN (resetSession (incrementSession s)))"

subsection \<open>The effects, in the order of the source\<close>

text \<open>
  Each effect has a body, run after a render in which one of its dependencies changed,
  and for some a cleanup, run before the body when the last run of the body returned one;
  whether it did is kept in the record. The dependencies listed are the values the
  dependency arrays hold or, for a callback, the values its identity depends on; the
  functions of the audio hook and of the contexts are taken as stable.
\<close>

definition countdownDeps :: "App \<Rightarrow> string \<times> int option \<times> TotalHits" where
  "countdownDeps a = (phase (state a), trainingStartTime a, totalHits (difficulty (state a)))"

definition countdownEffect :: "App \<Rightarrow> App \<Rightarrow> App" where
  "countdownEffect snap s =
     (if phase (state snap) = COUNTDOWN
      then (let s1 = s\<lparr>countdownValue := 3, wakeLock := True\<rparr>;
                (h, s2) = setTimeout CountdownStart 100 s1
            in s2\<lparr>countdownCleanup := True\<rparr>)
      else s\<lparr>countdownCleanup := False\<rparr>)"

definition countdownEffectCleanup :: "App \<Rightarrow> App" where
  "countdownEffectCleanup s = clearRef (countdownTimerRef s) s"

definition singleDeps ::
  "App \<Rightarrow> string \<times> string \<times> int \<times> TotalHits Difficulty \<times> string" where
  "singleDeps a =
     (phase (state a), trainingType (state a), hitsCompleted (state a), difficulty (state a),
      mode (state a))"

definition singleEffect :: "Env \<Rightarrow> App \<Rightarrow> App \<Rightarrow> App" where
  "singleEffect env snap s =
     (if phase (state snap) = TRAINING \<and> trainingType (state snap) = ''single''
      then (scheduleNextAction env snap s)\<lparr>singleCleanup := True\<rparr>
      else s\<lparr>singleCleanup := False\<rparr>)"

definition singleEffectCleanup :: "App \<Rightarrow> App" where
  "singleEffectCleanup s = clearRef (actionTimerRef s) s"

definition comboDeps :: "App \<Rightarrow> string \<times> string \<times> string \<times> int \<times> string" where
  "comboDeps a =
     (phase (state a), trainingType (state a), id_d (difficulty (state a)),
      combosCompleted (state a), mode (state a))"

definition comboEffect :: "Env \<Rightarrow> App \<Rightarrow> App \<Rightarrow> App" where
  "comboEffect env snap s =
     (if phase (state snap) = TRAINING \<and> trainingType (state snap) = ''combo''
      then (case getEffectiveComboSettings env (id_d (difficulty (state snap))) of
              None \<Rightarrow> s\<lparr>comboCleanup := False\<rparr>
            | Some comboConfig \<Rightarrow>
                if combosCompleted (state snap) \<ge> totalCombos comboConfig
                then s\<lparr>comboCleanup := False\<rparr>
                else (let (restDuration, s1) =
                            (if combosCompleted (state snap) = 0 then (0, s)
                             else (let (r, s') = random env s in (getRandomComboRest r comboConfig, s')));
                          (h, s2) = setTimeout ComboStart restDuration s1
                      in s2\<lparr>actionTimerRef := Some h, comboCleanup := True\<rparr>))
      else s\<lparr>comboCleanup := False\<rparr>)"

definition comboEffectCleanup :: "App \<Rightarrow> App" where
  "comboEffectCleanup s =
     (let s1 = clearRef (actionTimerRef s) s
      in (fold clearTimeout (comboTimersRef s1) s1)\<lparr>comboTimersRef := []\<rparr>)"

text \<open>
  The end of a session, after either completion effect has recorded it: the break when
  sessions remain, the end of the run otherwise.
\<close>

definition nextPhase :: "App \<Rightarrow> App \<Rightarrow> App" where
  "nextPhase snap s =
     (if currentSession (state snap) < numberOfSessions (state snap)
      then setPhase BREAK s
      else setPhase COMPLETE (s\<lparr>trainingEndTime := Some (clock s), wakeLock := False\<rparr>))"

definition singleCompletionDeps ::
  "App \<Rightarrow> string \<times> string \<times> int \<times> int option \<times> string \<times> int \<times> int \<times> int option \<times> string" where
  "singleCompletionDeps a =
     (phase (state a), trainingType (state a), hitsCompleted (state a), sessionTotalHits a,
      id_d (difficulty (state a)), currentSession (state a), numberOfSessions (state a),
      sessionStartTime a, mode (state a))"

definition singleCompletionEffect :: "Env \<Rightarrow> App \<Rightarrow> App \<Rightarrow> App" where
  "singleCompletionEffect env snap s =
     (if phase (state snap) = TRAINING \<and> trainingType (state snap) = ''single'' \<and>
         truthy (sessionTotalHits snap) \<and>
         hitsCompleted (state snap) \<ge> nullish (sessionTotalHits snap) 0
      then (let s1 = clearRef (actionTimerRef s) s;
                s2 = s1\<lparr>currentAction := None\<rparr>;
                s3 = play SessionEnd s2;
                s4 = addToHistoryAction env
                       \<lparr>mode_h = mode (state snap),
                        trainingType_h = trainingType (state snap),
                        difficultyId = id_d (difficulty (state snap)),
                        hitsCompleted_h = hitsCompleted (state snap),
                        totalHits_h = nullish (sessionTotalHits snap) 0,
                        combosCompleted_h = None,
                        totalCombos_h = None,
                        durationMs_h = clock s3 - nullish (sessionStartTime snap) 0,
                        sessionNumber = currentSession (state snap),
                        totalSessions = numberOfSessions (state snap)\<rparr> s3
            in nextPhase snap s4)
      else s)"

definition comboCompletionDeps ::
  "App \<Rightarrow> string \<times> string \<times> int \<times> int \<times> string \<times> int \<times> int \<times> int option \<times> string" where
  "comboCompletionDeps a =
     (phase (state a), trainingType (state a), combosCompleted (state a), hitsCompleted (state a),
      id_d (difficulty (state a)), currentSession (state a), numberOfSessions (state a),
      sessionStartTime a, mode (state a))"

definition comboCompletionEffect :: "Env \<Rightarrow> App \<Rightarrow> App \<Rightarrow> App" where
  "comboCompletionEffect env snap s =
     (case getComboSettings (id_d (difficulty (state snap))) of
        None \<Rightarrow> s
      | Some comboConfig \<Rightarrow>
          if phase (state snap) = TRAINING \<and> trainingType (state snap) = ''combo'' \<and>
             combosCompleted (state snap) \<ge> totalCombos comboConfig
          then (let s1 = clearRef (actionTimerRef s) s;
                    s2 = (fold clearTimeout (comboTimersRef s1) s1)\<lparr>comboTimersRef := []\<rparr>;
                    s3 = s2\<lparr>currentAction := None\<rparr>;
                    s4 = play SessionEnd s3;
                    s5 = addToHistoryAction env
                           \<lparr>mode_h = mode (state snap),
                            trainingType_h = trainingType (state snap),
                            difficultyId = id_d (difficulty (state snap)),
                            hitsCompleted_h = hitsCompleted (state snap),
                            totalHits_h = hitsCompleted (state snap),
                            combosCompleted_h = Some (combosCompleted (state snap)),
                            totalCombos_h = Some (totalCombos comboConfig),
                            durationMs_h = clock s4 - nullish (sessionStartTime snap) 0,
                            sessionNumber = currentSession (state snap),
                            totalSessions = numberOfSessions (state snap)\<rparr> s4
                in nextPhase snap s5)
          else s)"

definition breakDeps :: "App \<Rightarrow> string \<times> PartialRest option" where
  "breakDeps a = (phase (state a), rest_d (difficulty (state a)))"

text \<open>
  \<open>difficulty.rest?.enabled !== false ? Math.round((difficulty.rest?.breakDuration || 30000)
  / 1000) : 0\<close>.
\<close>

definition breakSeconds :: "PartialRest option \<Rightarrow> int" where
  "breakSeconds r =
     (if Option.bind r enabled_p \<noteq> Some False
      then round (real_of_int (if truthy (Option.bind r breakDuration_p)
                               then nullish (Option.bind r breakDuration_p) 0 else 30000) / 1000)
      else 0)"

definition breakEffect :: "App \<Rightarrow> App \<Rightarrow> App" where
  "breakEffect snap s =
     (if phase (state snap) = BREAK
      then (let breakDuration = breakSeconds (rest_d (difficulty (state snap)))
            in if breakDuration = 0
               then (setPhase COUNTDOWN (resetSession (incrementSession s)))\<lparr>breakCleanup := False\<rparr>
               else (runBreak breakDuration
                       (s\<lparr>breakTimeRemaining := breakDuration, warningPlayedRef := False\<rparr>))
                    \<lparr>breakCleanup := True\<rparr>)
      else s\<lparr>breakCleanup := False\<rparr>)"

definition breakEffectCleanup :: "App \<Rightarrow> App" where
  "breakEffectCleanup s = clearRef (breakTimerRef s) s"

definition completeDeps :: "App \<Rightarrow> string \<times> int option" where
  "completeDeps a = (phase (state a), trainingEndTime a)"

definition completeEffect :: "App \<Rightarrow> App \<Rightarrow> App" where
  "completeEffect snap s =
     (if phase (state snap) = COMPLETE \<and> \<not> truthy (trainingEndTime snap)
      then s\<lparr>trainingEndTime := Some (clock s)\<rparr> else s)"

definition idleEffect :: "App \<Rightarrow> App \<Rightarrow> App" where
  "idleEffect snap s =
     (if phase (state snap) = IDLE
      then s\<lparr>trainingStartTime := None, trainingEndTime := None, sessionStartTime := None,
             sessionTotalHits := None, currentAction := None\<rparr>
      else s)"

subsection \<open>Rendering\<close>

text \<open>
  After a change of state the component renders again: the cleanups of the effects whose
  dependencies changed run, in order, then their bodies, in order, all reading the state
  of that render. What the bodies change is rendered in turn, until nothing changes; the
  framework gives up after 50 nested updates. \<open>renders\<close> lists the states rendered, the
  last of which is the state the application rests in.
\<close>

definition rendered ::
  "App \<Rightarrow> TrainingState \<times> SessionHistoryEntry list \<times> int \<times> string option \<times> int \<times>
         int option \<times> int option \<times> int option \<times> int option" where
  "rendered a =
     (state a, sessionHistory a, countdownValue a, currentAction a, breakTimeRemaining a,
      trainingStartTime a, trainingEndTime a, sessionStartTime a, sessionTotalHits a)"

definition whenever :: "bool \<Rightarrow> (App \<Rightarrow> App) \<Rightarrow> App \<Rightarrow> App" where
  "whenever b f s = (if b then f s else s)"

definition commit :: "Env \<Rightarrow> App \<Rightarrow> App \<Rightarrow> App" where
  "commit env prev snap =
     (let c1 = countdownDeps prev \<noteq> countdownDeps snap;
          c2 = singleDeps prev \<noteq> singleDeps snap;
          c3 = comboDeps prev \<noteq> comboDeps snap;
          c4 = singleCompletionDeps prev \<noteq> singleCompletionDeps snap;
          c5 = comboCompletionDeps prev \<noteq> comboCompletionDeps snap;
          c6 = breakDeps prev \<noteq> breakDeps snap;
          c7 = completeDeps prev \<noteq> completeDeps snap;
          c8 = phase (state prev) \<noteq> phase (state snap)
      in fold (\<lambda>f s. f s)
           [\<lambda>s. whenever (c1 \<and> countdownCleanup s) countdownEffectCleanup s,
            \<lambda>s. whenever (c2 \<and> singleCleanup s) singleEffectCleanup s,
            \<lambda>s. whenever (c3 \<and> comboCleanup s) comboEffectCleanup s,
            \<lambda>s. whenever (c6 \<and> breakCleanup s) breakEffectCleanup s,
            whenever c1 (countdownEffect snap),
            whenever c2 (singleEffect env snap),
            whenever c3 (comboEffect env snap),
            whenever c4 (singleCompletionEffect env snap),
            whenever c5 (comboCompletionEffect env snap),
            whenever c6 (breakEffect snap),
            whenever c7 (completeEffect snap),
            whenever c8 (idleEffect snap)]
           snap)"

fun renders :: "Env \<Rightarrow> nat \<Rightarrow> App \<Rightarrow> App \<Rightarrow> App list" where
  "renders env 0 prev cur = [cur]"
| "renders env (Suc n) prev cur =
     (if rendered prev = rendered cur then [cur]
      else cur # renders env n cur (commit env prev cur))"

definition rerender :: "Env \<Rightarrow> App \<Rightarrow> App \<Rightarrow> App" where
  "rerender env prev cur = last (renders env 50 prev cur)"

subsection \<open>Events\<close>

text \<open>What a timer's callback does when it fires, before the render that follows.\<close>

fun fire :: "Env \<Rightarrow> Callback \<Rightarrow> App \<Rightarrow> App" where
  "fire env CountdownStart s = runCountdown 3 s"
| "fire env (CountdownTick v) s = runCountdown (v - 1) (s\<lparr>countdownValue := v - 1\<rparr>)"
| "fire env CountdownDone s = countdownDone env s s"
| "fire env ActionTimer s = snd (setTimeout ActionDisplay 800 (present env s s))"
| "fire env ActionDisplay s = incrementHits (s\<lparr>currentAction := None\<rparr>)"
| "fire env ComboStart s = scheduleCombo env s s"
| "fire env Strike s = snd (setTimeout StrikeDisplay 300 (present env s s))"
| "fire env StrikeDisplay s = incrementHits (s\<lparr>currentAction := None\<rparr>)"
| "fire env ComboComplete s = incrementCombos s"
| "fire env (BreakTick remaining) s =
     runBreak (remaining - 1) (s\<lparr>breakTimeRemaining := remaining - 1\<rparr>)"

text \<open>
  The pending timer that fires next is the earliest due, the first set among equals. A
  tick fires it, at its due time, and renders.
\<close>

fun earliest :: "Timer \<Rightarrow> Timer list \<Rightarrow> Timer" where
  "earliest t [] = t"
| "earliest t (u # us) = earliest (if due u < due t then u else t) us"

definition tickRenders :: "Env \<Rightarrow> App \<Rightarrow> App list" where
  "tickRenders env s =
     (case timers s of
        [] \<Rightarrow> [s]
      | t # ts \<Rightarrow>
          (let n = earliest t ts;
               s1 = s\<lparr>timers := filter (\<lambda>u. handle u \<noteq> handle n) (timers s),
                      clock := max (clock s) (due n)\<rparr>
           in renders env 50 s (fire env (callback n) s1)))"

definition tick :: "Env \<Rightarrow> App \<Rightarrow> App" where
  "tick env s = last (tickRenders env s)"

text \<open>The buttons: start on the configuration screen, the confirmed stop, the results screen.\<close>

definition handleStartTraining :: "Env \<Rightarrow> App \<Rightarrow> App" where
  "handleStartTraining env s = rerender env s (setPhase COUNTDOWN s)"

definition handleConfirmStop :: "Env \<Rightarrow> App \<Rightarrow> App" where
  "handleConfirmStop env s = rerender env s (setPhase COMPLETE s)"

definition handleTrainAgain :: "Env \<Rightarrow> App \<Rightarrow> App" where
  "handleTrainAgain env s = rerender env s (setPhase COUNTDOWN (resetAll s))"

definition handleChangeSettings :: "Env \<Rightarrow> App \<Rightarrow> App" where
  "handleChangeSettings env s = rerender env s (setPhase IDLE (resetAll s))"

text \<open>The application once mounted, before any button is pressed.\<close>

definition mounted :: "TrainingState \<Rightarrow> App" where
  "mounted st =
     \<lparr>state = st, sessionHistory = [], countdownValue = 3, currentAction = None,
      breakTimeRemaining = 30, trainingStartTime = None, trainingEndTime = None,
      sessionStartTime = None, sessionTotalHits = None, countdownTimerRef = None,
      actionTimerRef = None, breakTimerRef = None, warningPlayedRef = False,
      comboTimersRef = [], countdownCleanup = False, singleCleanup = False,
      comboCleanup = False, breakCleanup = False, timers = [], nextHandle = 1, clock = 0,
      draws = 0, wakeLock = False, sounds = []\<rparr>"

text \<open>A number of ticks in a row, and every state rendered in their course.\<close>

fun ticks :: "Env \<Rightarrow> nat \<Rightarrow> App \<Rightarrow> App" where
  "ticks env 0 s = s"
| "ticks env (Suc n) s = ticks env n (tick env s)"




section \<open>Properties of the orchestrator\<close>

text \<open>
  The transitions of the state machine as the specification lists them: the start, the end
  of the countdown, the end of a session, the break or the end of the run after it, the
  end of the break, the mid-session rest and its end, the return to the configuration, and
  the stop from every state but \<open>IDLE\<close> and \<open>COMPLETE\<close>.
\<close>

definition spec_transitions :: "(string \<times> string) list" where
  "spec_transitions =
     [(IDLE, COUNTDOWN), (COUNTDOWN, TRAINING), (TRAINING, SESSION_END), (SESSION_END, BREAK),
      (SESSION_END, COMPLETE), (BREAK, COUNTDOWN), (TRAINING, MID_REST), (MID_REST, TRAINING),
      (COMPLETE, IDLE),
      (COUNTDOWN, COMPLETE), (TRAINING, COMPLETE), (MID_REST, COMPLETE), (SESSION_END, COMPLETE),
      (BREAK, COMPLETE)]"









section \<open>Properties of profiles\<close>

text \<open>
  The vocabulary of the statements about profiles. A difficulty is populated when every
  key of it, at every level, is present. Its twelve numeric leaves are listed in a fixed
  order, each read with optional chaining (\<open>d.combo?.comboSize?.min\<close>), beside the
  same leaves of a default difficulty. Its five ranges are the interval range
  (\<open>minInterval\<close>, \<open>maxInterval\<close>) and the four \<open>{min, max}\<close> objects.
\<close>

definition populatedRange :: "PartialRange option \<Rightarrow> bool" where
  "populatedRange r = (case r of None \<Rightarrow> False | Some x \<Rightarrow> min_p x \<noteq> None \<and> max_p x \<noteq> None)"

definition populatedDifficulty :: "PartialDifficulty \<Rightarrow> bool" where
  "populatedDifficulty d =
     (id_p d \<noteq> None \<and> name_p d \<noteq> None \<and> minInterval_p d \<noteq> None \<and> maxInterval_p d \<noteq> None \<and>
      populatedRange (totalHits_p d) \<and>
      (case combo_p d of
         None \<Rightarrow> False
       | Some c \<Rightarrow> populatedRange (comboSize_p c) \<and> populatedRange (strikeInterval_p c) \<and>
                   populatedRange (restBetweenCombos_p c) \<and> totalCombos_p c \<noteq> None) \<and>
      (case rest_p d of
         None \<Rightarrow> False
       | Some r \<Rightarrow> enabled_p r \<noteq> None \<and> breakDuration_p r \<noteq> None))"

definition numericLeaves :: "PartialDifficulty \<Rightarrow> int option list" where
  "numericLeaves d =
     [minInterval_p d, maxInterval_p d,
      Option.bind (totalHits_p d) min_p, Option.bind (totalHits_p d) max_p,
      Option.bind (Option.bind (combo_p d) comboSize_p) min_p,
      Option.bind (Option.bind (combo_p d) comboSize_p) max_p,
      Option.bind (Option.bind (combo_p d) strikeInterval_p) min_p,
      Option.bind (Option.bind (combo_p d) strikeInterval_p) max_p,
      Option.bind (Option.bind (combo_p d) restBetweenCombos_p) min_p,
      Option.bind (Option.bind (combo_p d) restBetweenCombos_p) max_p,
      Option.bind (combo_p d) totalCombos_p,
      Option.bind (rest_p d) breakDuration_p]"

definition defaultLeaves :: "DifficultySettings \<Rightarrow> int list" where
  "defaultLeaves d =
     [minInterval_s d, maxInterval_s d,
      min_r (totalHits_s d), max_r (totalHits_s d),
      min_r (comboSize_v (combo_s d)), max_r (comboSize_v (combo_s d)),
      min_r (strikeInterval_v (combo_s d)), max_r (strikeInterval_v (combo_s d)),
      min_r (restBetweenCombos_v (combo_s d)), max_r (restBetweenCombos_v (combo_s d)),
      totalCombos_v (combo_s d),
      breakDuration_v (rest_s d)]"

definition rangeEnds :: "PartialDifficulty \<Rightarrow> (int option \<times> int option) list" where
  "rangeEnds d =
     [(minInterval_p d, maxInterval_p d),
      (Option.bind (totalHits_p d) min_p, Option.bind (totalHits_p d) max_p),
      (Option.bind (Option.bind (combo_p d) comboSize_p) min_p,
       Option.bind (Option.bind (combo_p d) comboSize_p) max_p),
      (Option.bind (Option.bind (combo_p d) strikeInterval_p) min_p,
       Option.bind (Option.bind (combo_p d) strikeInterval_p) max_p),
      (Option.bind (Option.bind (combo_p d) restBetweenCombos_p) min_p,
       Option.bind (Option.bind (combo_p d) restBetweenCombos_p) max_p)]"

text \<open>Every range has both ends, and \<open>min \<le> max\<close>.\<close>

definition rangesOrdered :: "PartialDifficulty \<Rightarrow> bool" where
  "rangesOrdered d = list_all (\<lambda>(lo, hi). le_js lo hi) (rangeEnds d)"

text \<open>Every range is either left out at both ends, or given at both with \<open>min \<le> max\<close>.\<close>

definition wholeRanges :: "PartialDifficulty \<Rightarrow> bool" where
  "wholeRanges d = list_all (\<lambda>(lo, hi). (lo = None \<and> hi = None) \<or> le_js lo hi) (rangeEnds d)"



section \<open>Example inputs\<close>

definition entry_example :: HistoryEntry where
  "entry_example =
     \<lparr>mode_h = ''both'', trainingType_h = ''single'', difficultyId = ''normal'',
      hitsCompleted_h = 45, totalHits_h = 45, combosCompleted_h = None, totalCombos_h = None,
      durationMs_h = 90000, sessionNumber = 1, totalSessions = 2\<rparr>"

definition partial_example :: PartialProfile where
  "partial_example =
     \<lparr>id_pp = Some ''p1'', name_pp = Some ''Mine'', isDefault_pp = None, isReadOnly_pp = None,
      createdAt_pp = None, updatedAt_pp = None,
      difficulties_pp = Some
        [\<lparr>id_p = Some ''normal'', name_p = None, minInterval_p = None, maxInterval_p = None,
          totalHits_p = Some \<lparr>min_p = Some 40, max_p = Some 50\<rparr>,
          combo_p = Some \<lparr>comboSize_p = None, strikeInterval_p = None,
                          restBetweenCombos_p = None, totalCombos_p = Some 3\<rparr>,
          rest_p = None\<rparr>]\<rparr>"

definition half_range_example :: PartialProfile where
  "half_range_example =
     \<lparr>id_pp = Some ''p2'', name_pp = Some ''Custom'', isDefault_pp = None, isReadOnly_pp = None,
      createdAt_pp = None, updatedAt_pp = None,
      difficulties_pp = Some
        [\<lparr>id_p = Some ''very-easy'', name_p = None, minInterval_p = None, maxInterval_p = None,
          totalHits_p = Some \<lparr>min_p = Some 100, max_p = None\<rparr>,
          combo_p = None, rest_p = None\<rparr>]\<rparr>"





definition fixed_env :: Env where
  "fixed_env = \<lparr>rng = (\<lambda>_. 1 / 2), getEffectiveComboSettings = getComboSettings\<rparr>"

definition two_sessions_of_ten :: TrainingState where
  "two_sessions_of_ten =
     initialState\<lparr>difficulty :=
       (builtin DEFAULT_DIFFICULTY)\<lparr>totalHits := HitsRange \<lparr>min_r = 10, max_r = 10\<rparr>\<rparr>\<rparr>"

text \<open>The run of two sessions of ten hits, at the moment the countdown has ended.\<close>

definition session_started :: App where
  "session_started = ticks fixed_env 5 (handleStartTraining fixed_env (mounted two_sessions_of_ten))"

definition three_strike_env :: Env where
  "three_strike_env =
     \<lparr>rng = (\<lambda>_. 1 / 2),
      getEffectiveComboSettings = (\<lambda>i.
         Some \<lparr>id_c = i, comboSize = \<lparr>min_r = 3, max_r = 3\<rparr>,
                strikeInterval = \<lparr>min_r = 100, max_r = 100\<rparr>,
                restBetweenCombos = \<lparr>min_r = 3000, max_r = 4000\<rparr>, totalCombos = 15\<rparr>)\<rparr>"

definition combo_mounted :: App where
  "combo_mounted = mounted (initialState\<lparr>trainingType := ''combo''\<rparr>)"




section \<open>Theorems\<close>

subsection \<open>Random intervals\<close>




subsection \<open>Session history\<close>

lemma length_addToHistory: "length (addToHistory now rnd e prev) \<le> 10"
  by (simp add: addToHistory_def MAX_HISTORY_ENTRIES_def)

lemma length_addAllToHistory:
  "calls \<noteq> [] \<Longrightarrow> length (addAllToHistory calls prev) \<le> 10"
proof (induction calls arbitrary: prev)
  case Nil
  then show ?case by simp
next
  case (Cons c calls)
  obtain now rnd e where c: "c = (now, rnd, e)" by (cases c) auto
  show ?case
  proof (cases "calls = []")
    case True
    then show ?thesis by (simp add: c length_addToHistory)
  next
    case False
    then show ?thesis using Cons.IH by (simp add: c)
  qed
qed

text \<open>
  Claim C6. After any call of \<open>addToHistory\<close>, from any stored list, the history has at
  most \<open>MAX_HISTORY_ENTRIES = 10\<close> entries; the new entry is the head of the list, followed
  by the nine newest entries of the list before, so the entries dropped are the oldest;
  and after any non-empty sequence of calls the history has at most ten entries.
\<close>

theorem addToHistory_bounded:
  "length (addToHistory now rnd e prev) \<le> MAX_HISTORY_ENTRIES \<and>
   MAX_HISTORY_ENTRIES = 10 \<and>
   addToHistory now rnd e prev =
     \<lparr>entry = e, id_h = SessionId now rnd, timestamp = now\<rparr> # take 9 prev \<and>
   (calls \<noteq> [] \<longrightarrow> length (addAllToHistory calls prev) \<le> 10)"
  using length_addAllToHistory [of calls prev]
  by (simp add: addToHistory_def MAX_HISTORY_ENTRIES_def)

theorem addToHistory_bounded_witness:
  "replicate 12 (0, 1 / 2, entry_example) \<noteq> [] \<and>
   length (addAllToHistory (replicate 12 (0, 1 / 2, entry_example)) []) = 10 \<and>
   addToHistory 5 (1 / 4) entry_example [] =
     [\<lparr>entry = entry_example, id_h = SessionId 5 (1 / 4), timestamp = 5\<rparr>]"
proof -
  have ne: "replicate 12 (0::int, 1 / 2 :: real, entry_example) \<noteq> []" by simp
  have "10 \<le> length (addAllToHistory (replicate 12 (0, 1 / 2, entry_example)) [])"
    by (simp add: eval_nat_numeral addToHistory_def MAX_HISTORY_ENTRIES_def)
  with addToHistory_bounded [of 5 "1 / 4" entry_example "[]"
      "replicate 12 (0, 1 / 2, entry_example)"] ne
  show ?thesis by simp
qed

subsection \<open>Completion rate\<close>




subsection \<open>Merging a profile with the defaults\<close>

lemma populated_mergeRange: "populatedRange (Some (mergeRange c d))"
  by (simp add: populatedRange_def mergeRange_def rangeObject_def split: option.splits)

lemma populated_rangeObject: "populatedRange (Some (rangeObject r))"
  by (simp add: populatedRange_def rangeObject_def)

lemma populated_mergeDifficulty: "populatedDifficulty (mergeDifficulty dd found)"
  by (simp add: populatedDifficulty_def mergeDifficulty_def settingsObject_def comboObject_def
      restObject_def populated_mergeRange populated_rangeObject split: option.splits)

lemma min_mergeRange: "min_p (mergeRange c d) = Some (nullish (Option.bind c min_p) (min_r d))"
  by (simp add: mergeRange_def rangeObject_def nullish_def split: option.splits)

lemma max_mergeRange: "max_p (mergeRange c d) = Some (nullish (Option.bind c max_p) (max_r d))"
  by (simp add: mergeRange_def rangeObject_def nullish_def split: option.splits)

lemma leaves_mergeDifficulty:
  "numericLeaves (mergeDifficulty dd (Some c)) =
     map2 (\<lambda>leaf dflt. Some (nullish leaf dflt)) (numericLeaves c) (defaultLeaves dd)"
  by (simp add: numericLeaves_def defaultLeaves_def mergeDifficulty_def min_mergeRange max_mergeRange
      comboObject_def restObject_def rangeObject_def nullish_def split: option.splits)

lemma enabled_mergeDifficulty:
  "Option.bind (rest_p (mergeDifficulty dd (Some c))) enabled_p =
     Some (nullish (Option.bind (rest_p c) enabled_p) (enabled_v (rest_s dd)))"
  by (simp add: mergeDifficulty_def restObject_def nullish_def split: option.splits)

lemma defaults_list:
  "difficulties_dp createDefaultProfile =
     [createDifficultySettings (DIFFICULTIES ! 0) (COMBO_SETTINGS ! 0),
      createDifficultySettings (DIFFICULTIES ! 1) (COMBO_SETTINGS ! 1),
      createDifficultySettings (DIFFICULTIES ! 2) (COMBO_SETTINGS ! 2),
      createDifficultySettings (DIFFICULTIES ! 3) (COMBO_SETTINGS ! 3),
      createDifficultySettings (DIFFICULTIES ! 4) (COMBO_SETTINGS ! 4)]"
  by (simp add: createDefaultProfile_def DIFFICULTIES_def COMBO_SETTINGS_def)

lemma defaults_ordered:
  assumes "dd \<in> set (difficulties_dp createDefaultProfile)"
  shows "minInterval_s dd \<le> maxInterval_s dd \<and> min_r (totalHits_s dd) \<le> max_r (totalHits_s dd) \<and>
         min_r (comboSize_v (combo_s dd)) \<le> max_r (comboSize_v (combo_s dd)) \<and>
         min_r (strikeInterval_v (combo_s dd)) \<le> max_r (strikeInterval_v (combo_s dd)) \<and>
         min_r (restBetweenCombos_v (combo_s dd)) \<le> max_r (restBetweenCombos_v (combo_s dd))"
  using assms unfolding defaults_list
  by (auto simp add: createDifficultySettings_def DIFFICULTIES_def COMBO_SETTINGS_def)

lemma pair_ordered:
  "(lo = None \<and> hi = None) \<or> le_js lo hi \<Longrightarrow> dl \<le> dh \<Longrightarrow>
   le_js (Some (nullish lo dl)) (Some (nullish hi dh))"
  by (auto simp add: le_js_def nullish_def split: option.splits)

lemma rangeEnds_mergeDifficulty:
  "rangeEnds (mergeDifficulty dd (Some c)) =
     map2 (\<lambda>(lo, hi) (dl, dh). (Some (nullish lo dl), Some (nullish hi dh))) (rangeEnds c)
       [(minInterval_s dd, maxInterval_s dd),
        (min_r (totalHits_s dd), max_r (totalHits_s dd)),
        (min_r (comboSize_v (combo_s dd)), max_r (comboSize_v (combo_s dd))),
        (min_r (strikeInterval_v (combo_s dd)), max_r (strikeInterval_v (combo_s dd))),
        (min_r (restBetweenCombos_v (combo_s dd)), max_r (restBetweenCombos_v (combo_s dd)))]"
  by (simp add: rangeEnds_def mergeDifficulty_def min_mergeRange max_mergeRange
      comboObject_def rangeObject_def nullish_def split: option.splits)

lemma ordered_mergeDifficulty:
  assumes "dd \<in> set (difficulties_dp createDefaultProfile)" and "wholeRanges c"
  shows "rangesOrdered (mergeDifficulty dd (Some c))"
  using assms(2) defaults_ordered [OF assms(1)]
  unfolding rangesOrdered_def wholeRanges_def rangeEnds_mergeDifficulty
  by (simp add: rangeEnds_def pair_ordered)

lemma ordered_settingsObject:
  assumes "dd \<in> set (difficulties_dp createDefaultProfile)"
  shows "rangesOrdered (settingsObject dd)"
  using defaults_ordered [OF assms]
  by (simp add: rangesOrdered_def rangeEnds_def settingsObject_def comboObject_def rangeObject_def
      le_js_def)

lemma findCustom_id: "findCustom partial dd = Some c \<Longrightarrow> id_p c = Some (id_s dd)"
  by (auto simp add: findCustom_def find_Some_iff split: option.splits)

lemma length_defaults: "length (difficulties_dp createDefaultProfile) = 5"
  by (simp add: defaults_list)

text \<open>
  Claim C4, as amended. For every partial profile, \<open>mergeWithDefaults\<close> returns the five
  built-in difficulties in the built-in order, each with every key present. For the
  difficulty at each position: when the partial profile has no entry with the built-in
  id, it is the built-in default; otherwise, with \<open>c\<close> the first such entry, each of
  the twelve numeric leaves and the \<open>enabled\<close> flag is the leaf of \<open>c\<close> when \<open>c\<close>
  has it and the default of that very leaf when \<open>c\<close> omits it, the name is the name of
  \<open>c\<close> unless that is missing or empty, and when every range of \<open>c\<close> is either left
  out at both ends or given at both ends with \<open>min \<le> max\<close>, every range of the result has
  \<open>min \<le> max\<close>.
\<close>

theorem mergeWithDefaults_leafwise:
  "\<exists>ms. difficulties_pp (mergeWithDefaults uuid now partial) = Some ms \<and>
        length ms = 5 \<and>
        (\<forall>i<5. let dd = difficulties_dp createDefaultProfile ! i; m = ms ! i in
           populatedDifficulty m \<and>
           id_p m = Some (id_s dd) \<and>
           (case findCustom partial dd of
              None \<Rightarrow> m = settingsObject dd \<and> rangesOrdered m
            | Some c \<Rightarrow>
                numericLeaves m =
                  map2 (\<lambda>leaf dflt. Some (nullish leaf dflt)) (numericLeaves c) (defaultLeaves dd) \<and>
                Option.bind (rest_p m) enabled_p =
                  Some (nullish (Option.bind (rest_p c) enabled_p) (enabled_v (rest_s dd))) \<and>
                name_p m = Some (or_string (name_p c) (name_s dd)) \<and>
                (wholeRanges c \<longrightarrow> rangesOrdered m)))"
proof -
  let ?defaults = "difficulties_dp createDefaultProfile"
  let ?ms = "map (\<lambda>dd. mergeDifficulty dd (findCustom partial dd)) ?defaults"
  have ms: "difficulties_pp (mergeWithDefaults uuid now partial) = Some ?ms"
    by (simp add: mergeWithDefaults_def Let_def)
  have len: "length ?ms = 5" by (simp add: length_defaults)
  have each: "populatedDifficulty (?ms ! i) \<and> id_p (?ms ! i) = Some (id_s (?defaults ! i)) \<and>
      (case findCustom partial (?defaults ! i) of
         None \<Rightarrow> ?ms ! i = settingsObject (?defaults ! i) \<and> rangesOrdered (?ms ! i)
       | Some c \<Rightarrow>
           numericLeaves (?ms ! i) =
             map2 (\<lambda>leaf dflt. Some (nullish leaf dflt)) (numericLeaves c)
               (defaultLeaves (?defaults ! i)) \<and>
           Option.bind (rest_p (?ms ! i)) enabled_p =
             Some (nullish (Option.bind (rest_p c) enabled_p) (enabled_v (rest_s (?defaults ! i)))) \<and>
           name_p (?ms ! i) = Some (or_string (name_p c) (name_s (?defaults ! i))) \<and>
           (wholeRanges c \<longrightarrow> rangesOrdered (?ms ! i)))" if i: "i < 5" for i
  proof -
    let ?dd = "?defaults ! i"
    have mem: "?dd \<in> set ?defaults" using i by (simp add: length_defaults)
    have m: "?ms ! i = mergeDifficulty ?dd (findCustom partial ?dd)"
      using i by (simp add: length_defaults)
    show ?thesis
    proof (cases "findCustom partial ?dd")
      case None
      then show ?thesis
        unfolding m using ordered_settingsObject [OF mem]
        by (simp add: populated_mergeDifficulty) (simp add: mergeDifficulty_def settingsObject_def)
    next
      case (Some c)
      have "id_p (mergeDifficulty ?dd (Some c)) = Some (id_s ?dd)"
        using findCustom_id [OF Some] by (simp add: mergeDifficulty_def or_string_def)
      moreover have "name_p (mergeDifficulty ?dd (Some c)) = Some (or_string (name_p c) (name_s ?dd))"
        by (simp add: mergeDifficulty_def)
      ultimately show ?thesis
        unfolding m Some
        using ordered_mergeDifficulty [OF mem]
        by (simp add: populated_mergeDifficulty leaves_mergeDifficulty enabled_mergeDifficulty)
    qed
  qed
  show ?thesis
    using ms len each by (auto simp add: Let_def)
qed

lemma whitespace_simps: "whitespace CHR ''M'' = False" "whitespace CHR ''C'' = False"
  "whitespace CHR ''e'' = False" "whitespace CHR ''m'' = False"
  by (simp_all add: whitespace_def)

theorem mergeWithDefaults_leafwise_witness:
  "\<exists>ms. difficulties_pp (mergeWithDefaults ''u'' 0 partial_example) = Some ms \<and>
        length ms = 5 \<and>
        populatedDifficulty (ms ! 2) \<and>
        numericLeaves (ms ! 2) =
          [Some 1000, Some 1800, Some 40, Some 50, Some 1, Some 3, Some 400, Some 600,
           Some 3000, Some 4000, Some 3, Some 30000] \<and>
        rangesOrdered (ms ! 2) \<and>
        ms ! 0 = settingsObject (difficulties_dp createDefaultProfile ! 0)"
proof -
  let ?c = "\<lparr>id_p = Some ''normal'', name_p = None, minInterval_p = None, maxInterval_p = None,
          totalHits_p = Some \<lparr>min_p = Some 40, max_p = Some 50\<rparr>,
          combo_p = Some \<lparr>comboSize_p = None, strikeInterval_p = None,
                          restBetweenCombos_p = None, totalCombos_p = Some 3\<rparr>,
          rest_p = None\<rparr>"
  obtain ms where ms: "difficulties_pp (mergeWithDefaults ''u'' 0 partial_example) = Some ms"
    and len: "length ms = 5"
    and each: "\<forall>i<5. let dd = difficulties_dp createDefaultProfile ! i; m = ms ! i in
           populatedDifficulty m \<and>
           id_p m = Some (id_s dd) \<and>
           (case findCustom partial_example dd of
              None \<Rightarrow> m = settingsObject dd \<and> rangesOrdered m
            | Some c \<Rightarrow>
                numericLeaves m =
                  map2 (\<lambda>leaf dflt. Some (nullish leaf dflt)) (numericLeaves c) (defaultLeaves dd) \<and>
                Option.bind (rest_p m) enabled_p =
                  Some (nullish (Option.bind (rest_p c) enabled_p) (enabled_v (rest_s dd))) \<and>
                name_p m = Some (or_string (name_p c) (name_s dd)) \<and>
                (wholeRanges c \<longrightarrow> rangesOrdered m))"
    using mergeWithDefaults_leafwise [of "''u''" 0 partial_example] by blast
  have f2: "findCustom partial_example (difficulties_dp createDefaultProfile ! 2) = Some ?c"
    by (simp add: findCustom_def partial_example_def defaults_list createDifficultySettings_def
        DIFFICULTIES_def)
  have f0: "findCustom partial_example (difficulties_dp createDefaultProfile ! 0) = None"
    by (simp add: findCustom_def partial_example_def defaults_list createDifficultySettings_def
        DIFFICULTIES_def)
  have whole: "wholeRanges ?c"
    by (simp add: wholeRanges_def rangeEnds_def le_js_def)
  have leaves: "map2 (\<lambda>leaf dflt. Some (nullish leaf dflt)) (numericLeaves ?c)
       (defaultLeaves (difficulties_dp createDefaultProfile ! 2)) =
     [Some 1000, Some 1800, Some 40, Some 50, Some 1, Some 3, Some 400, Some 600,
      Some 3000, Some 4000, Some 3, Some 30000]"
    by (simp add: numericLeaves_def defaultLeaves_def defaults_list createDifficultySettings_def
        DIFFICULTIES_def COMBO_SETTINGS_def BREAK_DURATION_MS_def nullish_def)
  from each have "let dd = difficulties_dp createDefaultProfile ! 2; m = ms ! 2 in
           populatedDifficulty m \<and>
           id_p m = Some (id_s dd) \<and>
           (case findCustom partial_example dd of
              None \<Rightarrow> m = settingsObject dd \<and> rangesOrdered m
            | Some c \<Rightarrow>
                numericLeaves m =
                  map2 (\<lambda>leaf dflt. Some (nullish leaf dflt)) (numericLeaves c) (defaultLeaves dd) \<and>
                Option.bind (rest_p m) enabled_p =
                  Some (nullish (Option.bind (rest_p c) enabled_p) (enabled_v (rest_s dd))) \<and>
                name_p m = Some (or_string (name_p c) (name_s dd)) \<and>
                (wholeRanges c \<longrightarrow> rangesOrdered m))"
    by simp
  then have two: "populatedDifficulty (ms ! 2) \<and>
      numericLeaves (ms ! 2) =
          [Some 1000, Some 1800, Some 40, Some 50, Some 1, Some 3, Some 400, Some 600,
           Some 3000, Some 4000, Some 3, Some 30000] \<and> rangesOrdered (ms ! 2)"
    unfolding Let_def f2 using whole leaves by simp
  from each have "let dd = difficulties_dp createDefaultProfile ! 0; m = ms ! 0 in
           populatedDifficulty m \<and>
           id_p m = Some (id_s dd) \<and>
           (case findCustom partial_example dd of
              None \<Rightarrow> m = settingsObject dd \<and> rangesOrdered m
            | Some c \<Rightarrow>
                numericLeaves m =
                  map2 (\<lambda>leaf dflt. Some (nullish leaf dflt)) (numericLeaves c) (defaultLeaves dd) \<and>
                Option.bind (rest_p m) enabled_p =
                  Some (nullish (Option.bind (rest_p c) enabled_p) (enabled_v (rest_s dd))) \<and>
                name_p m = Some (or_string (name_p c) (name_s dd)) \<and>
                (wholeRanges c \<longrightarrow> rangesOrdered m))"
    by simp
  then have zero: "ms ! 0 = settingsObject (difficulties_dp createDefaultProfile ! 0)"
    unfolding Let_def f0 by simp
  from ms len two zero show ?thesis by blast
qed

theorem mergeWithDefaults_half_range_counterexample:
  "errors (validateProfile half_range_example) = [] \<and>
   (\<exists>ms. difficulties_pp (mergeWithDefaults ''u'' 0 half_range_example) = Some ms \<and>
         totalHits_p (ms ! 0) = Some \<lparr>min_p = Some 100, max_p = Some 18\<rparr> \<and>
         \<not> rangesOrdered (ms ! 0))"
proof -
  have "trim ''Custom'' = ''Custom''"
    by (simp add: trim_def whitespace_simps)
  then have "errors (validateProfile half_range_example) = []"
    by (simp add: validateProfile_def half_range_example_def nameErrors_def difficultyErrors_def
        le_js_def gt_js_def lt_js_def)
  moreover have "difficulties_pp (mergeWithDefaults ''u'' 0 half_range_example) =
      Some (map (\<lambda>dd. mergeDifficulty dd (findCustom half_range_example dd))
             (difficulties_dp createDefaultProfile))"
    by (simp add: mergeWithDefaults_def Let_def)
  moreover have "findCustom half_range_example (difficulties_dp createDefaultProfile ! 0) =
      Some \<lparr>id_p = Some ''very-easy'', name_p = None, minInterval_p = None, maxInterval_p = None,
          totalHits_p = Some \<lparr>min_p = Some 100, max_p = None\<rparr>,
          combo_p = None, rest_p = None\<rparr>"
    by (simp add: findCustom_def half_range_example_def defaults_list createDifficultySettings_def
        DIFFICULTIES_def)
  ultimately show ?thesis
    by (simp add: defaults_list rangesOrdered_def rangeEnds_def mergeDifficulty_def mergeRange_def
        nullish_def le_js_def createDifficultySettings_def DIFFICULTIES_def COMBO_SETTINGS_def)
qed

subsection \<open>Validating a profile\<close>








subsection \<open>Requests for a phase\<close>

text \<open>
  Claim C3, as amended. The reducer rejects a \<open>SET_PHASE\<close> request, leaving the state
  unchanged, exactly when the requested value is not the name of one of the seven phases;
  a request that names a phase is accepted from every current phase and changes nothing
  but the phase.
\<close>

theorem SET_PHASE_checks_name_only:
  "(payload \<notin> set TRAINING_PHASES \<longrightarrow> trainingReducer st (SET_PHASE payload) = st) \<and>
   (payload \<in> set TRAINING_PHASES \<longrightarrow>
      trainingReducer st (SET_PHASE payload) = st\<lparr>phase := payload\<rparr>)"
  by simp

theorem SET_PHASE_checks_name_only_witness:
  "''PAUSED'' \<notin> set TRAINING_PHASES \<and>
   trainingReducer initialState (SET_PHASE ''PAUSED'') = initialState \<and>
   BREAK \<in> set TRAINING_PHASES \<and>
   phase (trainingReducer initialState (SET_PHASE BREAK)) = BREAK"
  using SET_PHASE_checks_name_only [of "''PAUSED''" initialState]
    SET_PHASE_checks_name_only [of BREAK initialState]
  by (simp add: TRAINING_PHASES_def)

theorem SET_PHASE_unreachable_counterexample:
  "phase initialState = IDLE \<and>
   (IDLE, COMPLETE) \<notin> set spec_transitions \<and>
   trainingReducer initialState (SET_PHASE COMPLETE) \<noteq> initialState \<and>
   phase (trainingReducer initialState (SET_PHASE COMPLETE)) = COMPLETE"
proof -
  have after: "phase (trainingReducer initialState (SET_PHASE COMPLETE)) = COMPLETE"
    by (simp add: TRAINING_PHASES_def)
  have before: "phase initialState = IDLE"
    by (simp add: initialState_def)
  have changed: "trainingReducer initialState (SET_PHASE COMPLETE) \<noteq> initialState"
  proof
    assume "trainingReducer initialState (SET_PHASE COMPLETE) = initialState"
    then have "phase (trainingReducer initialState (SET_PHASE COMPLETE)) = phase initialState"
      by (rule arg_cong)
    with after before show False by simp
  qed
  have "(IDLE, COMPLETE) \<notin> set spec_transitions"
    by (simp add: spec_transitions_def)
  with after before changed show ?thesis by blast
qed


subsection \<open>Rendering\<close>






subsection \<open>Single-hit sessions\<close>

























subsection \<open>Combos\<close>

lemma timers_clearAll:
  "timers (fold clearTimeout hs s) = filter (\<lambda>t. handle t \<notin> set hs) (timers s)"
  by (induction hs arbitrary: s) (auto simp add: clearTimeout_def intro: filter_cong)

lemma frame_clearAll:
  "nextHandle (fold clearTimeout hs s) = nextHandle s"
  "clock (fold clearTimeout hs s) = clock s"
  "draws (fold clearTimeout hs s) = draws s"
  "state (fold clearTimeout hs s) = state s"
  "sessionHistory (fold clearTimeout hs s) = sessionHistory s"
  by (induction hs arbitrary: s) (simp_all add: clearTimeout_def)

lemma degenerate_draw:
  assumes "0 \<le> r" "r < 1" "strikeInterval cfg = \<lparr>min_r = 100, max_r = 100\<rparr>"
  shows "getRandomStrikeInterval r cfg = 100"
proof -
  have "\<lfloor>r\<rfloor> = 0" using assms(1,2) by (simp add: floor_eq_iff)
  then show ?thesis by (simp add: getRandomStrikeInterval_def assms(3))
qed

lemma frame_clearRef:
  "nextHandle (clearRef r s) = nextHandle s"
  "clock (clearRef r s) = clock s"
  "draws (clearRef r s) = draws s"
  "state (clearRef r s) = state s"
  "sessionHistory (clearRef r s) = sessionHistory s"
  by (simp_all add: clearRef_def clearTimeout_def split: option.splits)


text \<open>
  Claim C8. When the size drawn for a combo is 3 and the range of the strike interval is
  100 to 100, \<open>scheduleCombo\<close> cancels the timers of the previous combo and sets four
  timers: the strikes at 0, 100 and 200 ms from the start of the combo, each after the
  first one interval, drawn anew, after the one before, and the end of the combo 300 ms
  after the last strike.
\<close>

theorem scheduleCombo_offsets:
  assumes cfg: "getEffectiveComboSettings env (id_d (difficulty (state snap))) = Some cfg"
    and unit: "\<forall>k. 0 \<le> rng env k \<and> rng env k < 1"
    and size: "getRandomComboSize (rng env (draws s)) cfg = 3"
    and gap: "strikeInterval cfg = \<lparr>min_r = 100, max_r = 100\<rparr>"
  shows "timers (scheduleCombo env snap s) =
           filter (\<lambda>t. handle t \<notin> set (comboTimersRef s)) (timers s) @
           [\<lparr>handle = nextHandle s, due = clock s, callback = Strike\<rparr>,
            \<lparr>handle = nextHandle s + 1, due = clock s + 100, callback = Strike\<rparr>,
            \<lparr>handle = nextHandle s + 2, due = clock s + 200, callback = Strike\<rparr>,
            \<lparr>handle = nextHandle s + 3, due = clock s + 500, callback = ComboComplete\<rparr>]"
proof -
  have g: "getRandomStrikeInterval (rng env k) cfg = 100" for k
    using unit gap by (simp add: degenerate_draw)
  show ?thesis
    by (simp add: scheduleCombo_def cfg random_def size numeral_3_eq_3 setTimeout_def g Let_def
        timers_clearAll frame_clearAll)
qed

theorem scheduleCombo_offsets_witness:
  "getEffectiveComboSettings three_strike_env (id_d (difficulty (state combo_mounted))) =
     Some \<lparr>id_c = ''normal'', comboSize = \<lparr>min_r = 3, max_r = 3\<rparr>,
            strikeInterval = \<lparr>min_r = 100, max_r = 100\<rparr>,
            restBetweenCombos = \<lparr>min_r = 3000, max_r = 4000\<rparr>, totalCombos = 15\<rparr> \<and>
   (\<forall>k. 0 \<le> rng three_strike_env k \<and> rng three_strike_env k < 1) \<and>
   timers (scheduleCombo three_strike_env combo_mounted combo_mounted) =
     [\<lparr>handle = 1, due = 0, callback = Strike\<rparr>,
      \<lparr>handle = 2, due = 100, callback = Strike\<rparr>,
      \<lparr>handle = 3, due = 200, callback = Strike\<rparr>,
      \<lparr>handle = 4, due = 500, callback = ComboComplete\<rparr>]"
proof -
  let ?cfg = "\<lparr>id_c = ''normal'', comboSize = \<lparr>min_r = 3, max_r = 3\<rparr>,
            strikeInterval = \<lparr>min_r = 100, max_r = 100\<rparr>,
            restBetweenCombos = \<lparr>min_r = 3000, max_r = 4000\<rparr>, totalCombos = 15\<rparr>"
  have cfg: "getEffectiveComboSettings three_strike_env (id_d (difficulty (state combo_mounted))) =
      Some ?cfg"
    by (simp add: three_strike_env_def combo_mounted_def mounted_def initialState_def builtin_def
        DEFAULT_DIFFICULTY_def DIFFICULTIES_def)
  have unit: "\<forall>k. 0 \<le> rng three_strike_env k \<and> rng three_strike_env k < 1"
    by (simp add: three_strike_env_def)
  have size: "getRandomComboSize (rng three_strike_env (draws combo_mounted)) ?cfg = 3"
    by (simp add: getRandomComboSize_def three_strike_env_def)
  have gap: "strikeInterval ?cfg = \<lparr>min_r = 100, max_r = 100\<rparr>" by simp
  have start: "timers combo_mounted = []" "comboTimersRef combo_mounted = []"
    "nextHandle combo_mounted = 1" "clock combo_mounted = 0"
    by (simp_all add: combo_mounted_def mounted_def)
  from scheduleCombo_offsets [OF cfg unit size gap] cfg unit
  show ?thesis by (simp add: start)
qed





subsection \<open>Stopping a run\<close>

lemma fold_apply_keeps:
  assumes "\<And>f s. f \<in> set fs \<Longrightarrow> state (f s) = state s \<and> sessionHistory (f s) = sessionHistory s"
  shows "state (fold (\<lambda>f s. f s) fs s) = state s \<and>
         sessionHistory (fold (\<lambda>f s. f s) fs s) = sessionHistory s"
  using assms by (induction fs arbitrary: s) simp_all

lemma cleanups_keep:
  "state (countdownEffectCleanup s) = state s"
  "sessionHistory (countdownEffectCleanup s) = sessionHistory s"
  "state (singleEffectCleanup s) = state s"
  "sessionHistory (singleEffectCleanup s) = sessionHistory s"
  "state (comboEffectCleanup s) = state s"
  "sessionHistory (comboEffectCleanup s) = sessionHistory s"
  "state (breakEffectCleanup s) = state s"
  "sessionHistory (breakEffectCleanup s) = sessionHistory s"
  by (simp_all add: countdownEffectCleanup_def singleEffectCleanup_def comboEffectCleanup_def
      breakEffectCleanup_def frame_clearRef frame_clearAll Let_def)

text \<open>
  In a render whose phase is \<open>COMPLETE\<close> no effect body touches the training state or the
  history: the two completion effects, which alone record a session, run only in
  \<open>TRAINING\<close>.
\<close>

lemma bodies_keep:
  assumes "phase (state snap) = COMPLETE"
  shows "state (countdownEffect snap s) = state s"
    "sessionHistory (countdownEffect snap s) = sessionHistory s"
    "state (singleEffect env snap s) = state s"
    "sessionHistory (singleEffect env snap s) = sessionHistory s"
    "state (comboEffect env snap s) = state s"
    "sessionHistory (comboEffect env snap s) = sessionHistory s"
    "singleCompletionEffect env snap s = s" "comboCompletionEffect env snap s = s"
    "state (breakEffect snap s) = state s" "sessionHistory (breakEffect snap s) = sessionHistory s"
    "state (completeEffect snap s) = state s"
    "sessionHistory (completeEffect snap s) = sessionHistory s"
    "idleEffect snap s = s"
  using assms
  by (simp_all add: countdownEffect_def singleEffect_def comboEffect_def singleCompletionEffect_def
      comboCompletionEffect_def breakEffect_def completeEffect_def idleEffect_def
      split: option.splits)

lemma commit_COMPLETE:
  assumes "phase (state snap) = COMPLETE"
  shows "state (commit env prev snap) = state snap \<and>
         sessionHistory (commit env prev snap) = sessionHistory snap"
  unfolding commit_def Let_def
  by (rule fold_apply_keeps) (auto simp add: whenever_def cleanups_keep bodies_keep [OF assms])

lemma renders_COMPLETE:
  assumes "phase (state cur) = COMPLETE"
  shows "\<forall>a\<in>set (renders env n prev cur).
           state a = state cur \<and> sessionHistory a = sessionHistory cur"
  using assms
proof (induction n arbitrary: prev cur)
  case 0
  then show ?case by simp
next
  case (Suc n)
  from commit_COMPLETE [OF Suc.prems, of env prev]
  have c: "state (commit env prev cur) = state cur"
    "sessionHistory (commit env prev cur) = sessionHistory cur" by simp_all
  with Suc.prems have "phase (state (commit env prev cur)) = COMPLETE" by simp
  from Suc.IH [OF this, of cur] c show ?case by simp
qed

lemma renders_nonempty: "renders env n prev cur \<noteq> []"
  by (cases n) simp_all

text \<open>
  Claim C2. The confirmed stop, from any state of the application, moves the run to
  \<open>COMPLETE\<close> and keeps the counters, and the session history after it is the history
  before it: no entry is recorded for the session that was stopped.
\<close>

theorem handleConfirmStop_records_nothing:
  "state (handleConfirmStop env s) = (state s)\<lparr>phase := COMPLETE\<rparr> \<and>
   sessionHistory (handleConfirmStop env s) = sessionHistory s"
proof -
  let ?cur = "setPhase COMPLETE s"
  have cur: "state ?cur = (state s)\<lparr>phase := COMPLETE\<rparr>" "sessionHistory ?cur = sessionHistory s"
    by (simp_all add: setPhase_def dispatch_def TRAINING_PHASES_def)
  then have "phase (state ?cur) = COMPLETE" by simp
  from renders_COMPLETE [OF this, of env 50 s] renders_nonempty [of env 50 s ?cur]
  have "state (last (renders env 50 s ?cur)) = state ?cur \<and>
        sessionHistory (last (renders env 50 s ?cur)) = sessionHistory ?cur"
    using last_in_set by blast
  then show ?thesis
    by (simp add: handleConfirmStop_def rerender_def cur)
qed

text \<open>
  The run of two sessions of ten hits, stopped after the third hit while the timer of the
  fourth stimulus is pending: the timer is cancelled, the run is in \<open>COMPLETE\<close> with three
  hits counted, and the history, empty before, is still empty.
\<close>

theorem stop_after_three_hits_counterexample:
  "phase (state (ticks fixed_env 6 session_started)) = TRAINING \<and>
   hitsCompleted (state (ticks fixed_env 6 session_started)) = 3 \<and>
   sessionTotalHits (ticks fixed_env 6 session_started) = Some 10 \<and>
   sessionHistory (ticks fixed_env 6 session_started) = [] \<and>
   phase (state (handleConfirmStop fixed_env (ticks fixed_env 6 session_started))) = COMPLETE \<and>
   hitsCompleted (state (handleConfirmStop fixed_env (ticks fixed_env 6 session_started))) = 3 \<and>
   timers (handleConfirmStop fixed_env (ticks fixed_env 6 session_started)) = [] \<and>
   sessionHistory (handleConfirmStop fixed_env (ticks fixed_env 6 session_started)) = []"
  by code_simp


end
